theory Spec2Isabelle
  imports Main
begin

section \<open>JavaScript strings\<close>

text \<open>
  A JavaScript string is a sequence of UTF-16 code units. The model works on strings whose
  code units are below 256 (Latin-1), one \<^typ>\<open>char\<close> per code unit. On that range the
  white space of \<^verbatim>\<open>\s\<close> and of \<^verbatim>\<open>trim()\<close> is TAB, LF, VT, FF, CR, SPACE and NBSP, and
  \<^verbatim>\<open>toLowerCase()\<close> maps A-Z and the accented capitals U+00C0..U+00DE (without the
  multiplication sign U+00D7) to the code unit 32 places higher.
\<close>

definition isWhiteSpace :: "char \<Rightarrow> bool" where
  "isWhiteSpace c = (of_char c \<in> {9, 10, 11, 12, 13, 32, 160 :: nat})"

definition isAlphaNumeric :: "char \<Rightarrow> bool" where
  "isAlphaNumeric c =
     (let n = of_char c :: nat
      in (48 \<le> n \<and> n \<le> 57) \<or> (65 \<le> n \<and> n \<le> 90) \<or> (97 \<le> n \<and> n \<le> 122))"

definition toLowerChar :: "char \<Rightarrow> char" where
  "toLowerChar c =
     (let n = of_char c :: nat
      in if (65 \<le> n \<and> n \<le> 90) \<or> (192 \<le> n \<and> n \<le> 222 \<and> n \<noteq> 215)
         then char_of (n + 32) else c)"

definition toLowerCase :: "string \<Rightarrow> string" where
  "toLowerCase s = map toLowerChar s"

definition trim :: "string \<Rightarrow> string" where
  "trim s = rev (dropWhile isWhiteSpace (rev (dropWhile isWhiteSpace s)))"

text \<open>
  \<^verbatim>\<open>s.replace(/([^...](?=[^\s]+))/gi, '$& ')\<close>: every match is one code unit of the
  negated class that is directly followed by a code unit that is not white space (the
  lookahead consumes nothing), and it is replaced by itself and one space. The scan goes
  left to right and resumes right after the matched unit. The flag \<^verbatim>\<open>i\<close> changes nothing
  here: the class holds both cases of every letter already. The first argument says which
  code units the negated class matches.
\<close>

fun spaceAfter :: "(char \<Rightarrow> bool) \<Rightarrow> string \<Rightarrow> string" where
  "spaceAfter cls [] = []"
| "spaceAfter cls [x] = [x]"
| "spaceAfter cls (x # y # r) =
     (if cls x \<and> \<not> isWhiteSpace y then x # CHR '' '' # spaceAfter cls (y # r)
      else x # spaceAfter cls (y # r))"

text \<open>The class \<^verbatim>\<open>[^A-Za-z0-9\n\r\s]\<close> used on the meaning.\<close>

definition meaningPunct :: "char \<Rightarrow> bool" where
  "meaningPunct c = (\<not> isAlphaNumeric c \<and> \<not> isWhiteSpace c)"

text \<open>The class \<^verbatim>\<open>[^A-Za-z0-9\n\r\s-]\<close> used on the word.\<close>

definition wordPunct :: "char \<Rightarrow> bool" where
  "wordPunct c = (\<not> isAlphaNumeric c \<and> \<not> isWhiteSpace c \<and> c \<noteq> CHR ''-'')"

definition normalizeMeaning :: "string \<Rightarrow> string" where
  "normalizeMeaning meaning = trim (spaceAfter meaningPunct meaning)"

definition normalizeWord :: "string \<Rightarrow> string" where
  "normalizeWord word = trim (spaceAfter wordPunct word)"


section \<open>Plain objects used as dictionaries\<close>

text \<open>
  \<^verbatim>\<open>collectionSet\<close>, \<^verbatim>\<open>quizSet\<close> and every entry of \<^verbatim>\<open>quizSet\<close> are objects made by
  \<^verbatim>\<open>{}\<close>, so a read of a key that is not an own property falls through to
  \<^verbatim>\<open>Object.prototype\<close>. Own properties are a map; the inherited names are listed.
\<close>

definition objectPrototypeKeys :: "string list" where
  "objectPrototypeKeys =
     [''constructor'', ''__defineGetter__'', ''__defineSetter__'', ''hasOwnProperty'',
      ''__lookupGetter__'', ''__lookupSetter__'', ''isPrototypeOf'',
      ''propertyIsEnumerable'', ''toString'', ''valueOf'', ''__proto__'',
      ''toLocaleString'']"

datatype property = Undefined | Own string | Inherited

definition getProp :: "(string \<rightharpoonup> string) \<Rightarrow> string \<Rightarrow> property" where
  "getProp obj key =
     (case obj key of
        Some v \<Rightarrow> Own v
      | None \<Rightarrow> if key \<in> set objectPrototypeKeys then Inherited else Undefined)"

text \<open>
  \<^verbatim>\<open>obj[key] = v\<close> with a string \<open>v\<close>: an own property is created or replaced, except
  for the key \<^verbatim>\<open>__proto__\<close>, whose inherited setter ignores a value that is not an object.
\<close>

definition setProp :: "(string \<rightharpoonup> string) \<Rightarrow> string \<Rightarrow> string \<Rightarrow> (string \<rightharpoonup> string)" where
  "setProp obj key v = (if key = ''__proto__'' then obj else obj(key \<mapsto> v))"


section \<open>The state of the DBHandler module and of the document store\<close>

record mailCredentials =
  jwtSecret :: string
  gmailAddress :: string
  GOOGLE_CLIENT_ID :: string
  GOOGLE_CLIENT_SECRET :: string
  GOOGLE_REDIRECT_URI :: string
  GOOGLE_REFRESH_TOKEN :: string

text \<open>The document \<^verbatim>\<open>{"identifier": "initializer"}\<close> of the collection \<^verbatim>\<open>_Root\<close>.\<close>

record initializerDoc =
  docCredentials :: mailCredentials
  versionField :: string

text \<open>
  The module variables of DBHandler, and the part of the outside world they talk to:
  \<^item> \<open>quizzerDatabase\<close>: whether the variable holds a database handle (it is
    \<^verbatim>\<open>undefined\<close> until a connection succeeded);
  \<^item> \<open>collectionSet\<close>: the own keys of the object (each value is the handle of the
    collection of that name);
  \<^item> \<open>quizSet\<close>, \<open>quizSetVersion\<close>, \<open>mailVerificationCredentials\<close> as in the source;
  \<^item> \<open>store\<close>: the document store, for every collection name its documents
    \<^verbatim>\<open>{word, meaning}\<close> in the order of \<^verbatim>\<open>find()\<close>; a collection can hold several
    documents with one word, so it is an association list;
  \<^item> \<open>upsertOutcomes\<close>: whether the coming \<^verbatim>\<open>updateOne\<close> calls fulfil (\<open>True\<close>) or
    reject, in call order; past the end of the list the store accepts every write.
\<close>

record db_state =
  quizzerDatabase :: bool
  collectionSet :: "string set"
  quizSet :: "string \<rightharpoonup> (string \<rightharpoonup> string)"
  quizSetVersion :: string
  mailVerificationCredentials :: "mailCredentials option"
  store :: "string \<Rightarrow> (string \<times> string) list"
  upsertOutcomes :: "bool list"

text \<open>
  The state when the module has been loaded (lines 19 to 28), beside a document store
  with the given documents and the given outcomes of its coming writes.
\<close>

definition initialState :: "(string \<Rightarrow> (string \<times> string) list) \<Rightarrow> bool list \<Rightarrow> db_state" where
  "initialState docs outcomes =
     \<lparr> quizzerDatabase = False, collectionSet = {}, quizSet = Map.empty,
       quizSetVersion = ''0.0.0'', mailVerificationCredentials = None,
       store = docs, upsertOutcomes = outcomes \<rparr>"

datatype error = TypeError | StoreError

text \<open>
  \<^verbatim>\<open>updateOne({word}, {"$set": {word, meaning}}, {"upsert": true})\<close> on the documents of
  one collection: the first document with that word gets the meaning, and a new document
  is added when there is none.
\<close>

fun updateOne :: "string \<Rightarrow> string \<Rightarrow> (string \<times> string) list \<Rightarrow> (string \<times> string) list" where
  "updateOne word meaning [] = [(word, meaning)]"
| "updateOne word meaning (d # ds) =
     (if fst d = word then (word, meaning) # ds else d # updateOne word meaning ds)"

text \<open>\<^verbatim>\<open>findOne({word})\<close>: the meaning of the first document with that word.\<close>

definition findOne :: "db_state \<Rightarrow> string \<Rightarrow> string \<Rightarrow> string option" where
  "findOne st collectionName word = map_of (store st collectionName) word"

definition getQuizSetVersion :: "db_state \<Rightarrow> string" where
  "getQuizSetVersion st = quizSetVersion st"

definition getQuizSet :: "db_state \<Rightarrow> (string \<rightharpoonup> (string \<rightharpoonup> string))" where
  "getQuizSet st = quizSet st"


section \<open>insertNewWord\<close>

text \<open>
  Lines 93 to 96: the meaning that goes on, from the property read \<^verbatim>\<open>quizSet[c][word]\<close>.
  An inherited property is an object without \<^verbatim>\<open>toLowerCase\<close>, so the call throws.
\<close>

definition mergeMeaning :: "property \<Rightarrow> string \<Rightarrow> error + string" where
  "mergeMeaning existingMeaning meaning =
     (case existingMeaning of
        Undefined \<Rightarrow> Inr meaning
      | Inherited \<Rightarrow> Inl TypeError
      | Own e \<Rightarrow>
          if e \<noteq> [] \<and> toLowerCase e \<noteq> toLowerCase meaning
          then Inr (e @ '' / '' @ meaning) else Inr meaning)"

text \<open>
  One call of \<^verbatim>\<open>insertNewWord\<close>, run without interleaving of other handlers. The result
  is the rejection reason or the returned triple, with the state the call leaves.
  \<^item> Lines 88 to 91: \<^verbatim>\<open>collectionSet[c] == null\<close> is false for an own key and for a name
    inherited from \<^verbatim>\<open>Object.prototype\<close>. For an inherited name nothing is created, the
    reads that follow change nothing, and \<^verbatim>\<open>collectionSet[c].updateOne\<close> is not a
    function: the call rejects with the state as it was.
  \<^item> For a new name the handle is taken from \<^verbatim>\<open>quizzerDatabase\<close>, which throws when that
    is \<^verbatim>\<open>undefined\<close>, and the cache entry is set to \<^verbatim>\<open>{}\<close>.
  \<^item> \<^verbatim>\<open>quizSet[c][word]\<close> throws when \<^verbatim>\<open>quizSet[c]\<close> is \<^verbatim>\<open>undefined\<close> (as for
    \<^verbatim>\<open>UserBase\<close> and \<^verbatim>\<open>_Root\<close>, which have a handle and no cache entry). No other
    name has a handle without a cache entry in a state the module reaches (the lemmas on
    \<open>consistent\<close> below), so the read never meets an inherited property there.
  \<^item> Lines 102 to 105: the write, then the cache; a rejected write leaves both alone.
\<close>

definition insertNewWord ::
  "db_state \<Rightarrow> string \<Rightarrow> string \<Rightarrow> string \<Rightarrow> (error + string \<times> string \<times> string) \<times> db_state" where
  "insertNewWord st collectionName word meaning =
     (if collectionName \<notin> collectionSet st \<and> collectionName \<in> set objectPrototypeKeys
      then (Inl TypeError, st)
      else if collectionName \<notin> collectionSet st \<and> \<not> quizzerDatabase st
      then (Inl TypeError, st)
      else
        let st1 = (if collectionName \<notin> collectionSet st
                   then st\<lparr> collectionSet := insert collectionName (collectionSet st),
                            quizSet := (quizSet st)(collectionName \<mapsto> Map.empty) \<rparr>
                   else st)
        in case quizSet st1 collectionName of
             None \<Rightarrow> (Inl TypeError, st1)
           | Some entries \<Rightarrow>
               (case mergeMeaning (getProp entries word) meaning of
                  Inl e \<Rightarrow> (Inl e, st1)
                | Inr merged \<Rightarrow>
                    let meaning' = normalizeMeaning merged;
                        word' = normalizeWord word;
                        fulfils = (case upsertOutcomes st1 of [] \<Rightarrow> True | b # _ \<Rightarrow> b);
                        st2 = st1\<lparr> upsertOutcomes := tl (upsertOutcomes st1) \<rparr>
                    in if fulfils
                       then (Inr (collectionName, word', meaning'),
                             st2\<lparr> store := (store st2)
                                    (collectionName :=
                                       updateOne word' meaning' (store st2 collectionName)),
                                  quizSet := (quizSet st2)
                                    (collectionName \<mapsto> setProp entries word' meaning') \<rparr>)
                       else (Inl StoreError, st2)))"

text \<open>
  \<^verbatim>\<open>insertWordsFromFile\<close>: the loop over the array of \<^verbatim>\<open>getWordMeaningArray()\<close>, which is
  a parameter here (the module FileToWordMeaningArray is not part of the sources). A
  rejected \<^verbatim>\<open>await\<close> leaves the loop and rejects the whole call.
\<close>

fun insertWordsFromFile ::
  "db_state \<Rightarrow> string \<Rightarrow> (string \<times> string) list \<Rightarrow> error option \<times> db_state" where
  "insertWordsFromFile st collectionName [] = (None, st)"
| "insertWordsFromFile st collectionName (pair # rest) =
     (case insertNewWord st collectionName (fst pair) (snd pair) of
        (Inl e, st') \<Rightarrow> (Some e, st')
      | (Inr _, st') \<Rightarrow> insertWordsFromFile st' collectionName rest)"


section \<open>openDBConnection\<close>

text \<open>
  What \<^verbatim>\<open>MongoClient.connect\<close> hands to its callback: an error, or a client, given here
  by the names that \<^verbatim>\<open>listCollections()\<close> returns, in their order, and by the result of
  \<^verbatim>\<open>findOne({"identifier": "initializer"})\<close> on \<^verbatim>\<open>_Root\<close>. The listing is taken not to
  hold the name \<^verbatim>\<open>__proto__\<close>, whose assignment would replace the prototype of
  \<^verbatim>\<open>collectionSet\<close>.
\<close>

datatype connect_result = ConnectError | Client "string list" "initializerDoc option"

text \<open>Lines 61 to 63: the documents of one collection, assigned in the order of the cursor.\<close>

definition loadEntries :: "(string \<times> string) list \<Rightarrow> (string \<rightharpoonup> string)" where
  "loadEntries docs = foldl (\<lambda>entries doc. setProp entries (fst doc) (snd doc)) Map.empty docs"

text \<open>
  The loop of lines 43 to 65. A missing initializer document makes the reads of its fields
  throw, which ends the loop.
\<close>

fun loadCollections ::
  "string list \<Rightarrow> initializerDoc option \<Rightarrow> db_state \<Rightarrow> error option \<times> db_state" where
  "loadCollections [] root st = (None, st)"
| "loadCollections (collectionName # rest) root st =
     (let st1 = st\<lparr> collectionSet := insert collectionName (collectionSet st) \<rparr>
      in if collectionName = ''_Root''
         then (case root of
                 None \<Rightarrow> (Some TypeError, st1)
               | Some doc \<Rightarrow>
                   loadCollections rest root
                     (st1\<lparr> mailVerificationCredentials := Some (docCredentials doc),
                           quizSetVersion := versionField doc \<rparr>))
         else if collectionName \<noteq> ''UserBase''
         then loadCollections rest root
                (st1\<lparr> quizSet := (quizSet st1)
                        (collectionName \<mapsto> loadEntries (store st1 collectionName)) \<rparr>)
         else loadCollections rest root st1)"

datatype log_entry =
  DBConnectionError | ConnectErrorObject | InitializationComplete | ListeningOnPort
  | ConsoleLogError

text \<open>
  How \<^verbatim>\<open>openDBConnection\<close> ends: the connection failed (lines 35 to 37), the loop went
  through and the callback, if any, has been called (lines 67 to 69), or an exception left
  the asynchronous function before that.
\<close>

datatype connection_outcome = NotConnected | Ready | Aborted error

definition openDBConnection ::
  "connect_result \<Rightarrow> db_state \<Rightarrow> log_entry list \<times> connection_outcome \<times> db_state" where
  "openDBConnection res st =
     (case res of
        ConnectError \<Rightarrow> ([DBConnectionError, ConnectErrorObject], NotConnected, st)
      | Client names root \<Rightarrow>
          (case loadCollections names root (st\<lparr> quizzerDatabase := True \<rparr>) of
             (None, st') \<Rightarrow> ([], Ready, st')
           | (Some e, st') \<Rightarrow> ([], Aborted e, st')))"

definition getMVC :: "db_state \<Rightarrow> mailCredentials option" where
  "getMVC st = mailVerificationCredentials st"


section \<open>The e-mail check of the gateway\<close>

text \<open>Regular expressions without lookaround, matched by derivatives.\<close>

datatype rexp =
  Never | Eps | Chars "char \<Rightarrow> bool" | Seq rexp rexp | Alt rexp rexp | Star rexp

fun nullable :: "rexp \<Rightarrow> bool" where
  "nullable Never = False"
| "nullable Eps = True"
| "nullable (Chars p) = False"
| "nullable (Seq r s) = (nullable r \<and> nullable s)"
| "nullable (Alt r s) = (nullable r \<or> nullable s)"
| "nullable (Star r) = True"

fun deriv :: "char \<Rightarrow> rexp \<Rightarrow> rexp" where
  "deriv c Never = Never"
| "deriv c Eps = Never"
| "deriv c (Chars p) = (if p c then Eps else Never)"
| "deriv c (Seq r s) =
     (if nullable r then Alt (Seq (deriv c r) s) (deriv c s) else Seq (deriv c r) s)"
| "deriv c (Alt r s) = Alt (deriv c r) (deriv c s)"
| "deriv c (Star r) = Seq (deriv c r) (Star r)"

text \<open>A match of the whole string, as \<^verbatim>\<open>^...$\<close> asks.\<close>

definition fullMatch :: "rexp \<Rightarrow> string \<Rightarrow> bool" where
  "fullMatch r s = nullable (foldl (\<lambda>r c. deriv c r) r s)"

definition Plus :: "rexp \<Rightarrow> rexp" where
  "Plus r = Seq r (Star r)"

definition Lit :: "char \<Rightarrow> rexp" where
  "Lit c = Chars (\<lambda>x. x = c)"

text \<open>The class \<^verbatim>\<open>[^<>()[\].,;:\s@"]\<close>; the double quote is the code unit 34.\<close>

definition atomChar :: "char \<Rightarrow> bool" where
  "atomChar c = (c \<notin> set ''<>()[].,;:@'' \<and> c \<noteq> char_of (34::nat) \<and> \<not> isWhiteSpace c)"

text \<open>The dot of a regular expression: any code unit but a line terminator.\<close>

definition anyChar :: "char \<Rightarrow> bool" where
  "anyChar c = (of_char c \<notin> {10, 13 :: nat})"

text \<open>
  \<^verbatim>\<open>/^(([^<>()[\].,;:\s@"]+(\.[^<>()[\].,;:\s@"]+)*)|(".+"))@(([^<>()[\].,;:\s@"]+\.)+[^<>()[\].,;:\s@"]{2,})$/i\<close>
\<close>

definition mailRegex :: rexp where
  "mailRegex =
     Seq (Alt (Seq (Plus (Chars atomChar)) (Star (Seq (Lit CHR ''.'') (Plus (Chars atomChar)))))
              (Seq (Lit (char_of (34::nat))) (Seq (Plus (Chars anyChar)) (Lit (char_of (34::nat))))))
         (Seq (Lit CHR ''@'')
              (Seq (Plus (Seq (Plus (Chars atomChar)) (Lit CHR ''.'')))
                   (Seq (Chars atomChar) (Seq (Chars atomChar) (Star (Chars atomChar))))))"

text \<open>
  The values a payload field can have. \<open>JOther s\<close> is any value that is not a string, a
  boolean, \<^verbatim>\<open>undefined\<close> or \<^verbatim>\<open>null\<close>, with \<open>s\<close> what \<^verbatim>\<open>String()\<close> makes of it.
\<close>

datatype jsval = JUndefined | JNull | JBool bool | JString string | JOther string

fun String :: "jsval \<Rightarrow> string" where
  "String JUndefined = ''undefined''"
| "String JNull = ''null''"
| "String (JBool b) = (if b then ''true'' else ''false'')"
| "String (JString s) = s"
| "String (JOther s) = s"

text \<open>
  \<^verbatim>\<open>validateUserMail\<close>: \<^verbatim>\<open>match\<close> returns \<^verbatim>\<open>null\<close> when the expression does not match,
  and the index \<^verbatim>\<open>[0]\<close> throws then; otherwise element 0 is the whole matched string.
\<close>

definition validateUserMail :: "jsval \<Rightarrow> error + string" where
  "validateUserMail email =
     (let s = toLowerCase (String email)
      in if fullMatch mailRegex s then Inr s else Inl TypeError)"


section \<open>The gateway\<close>

text \<open>
  The payload of an inbound event: \<^verbatim>\<open>null\<close> or \<^verbatim>\<open>undefined\<close>, whose property reads
  throw, or a value whose properties are read by name (a primitive has none of the
  names read here).
\<close>

datatype payload = Nullish | Object "(string \<times> jsval) list"

definition field :: "(string \<times> jsval) list \<Rightarrow> string \<Rightarrow> jsval" where
  "field props key = (case map_of props key of None \<Rightarrow> JUndefined | Some v \<Rightarrow> v)"

text \<open>What the functions of UserHandler resolve to: \<^verbatim>\<open>{success, reason}\<close>.\<close>

record reply =
  success :: bool
  reason :: jsval

datatype 'a outcome = Rejected | Resolved 'a

text \<open>
  The module UserHandler is not part of the sources. Its functions are parameters: each
  works on the state \<open>'u\<close> of that module; the asynchronous ones resolve or reject.
  \<^verbatim>\<open>hasAdminPrivileges\<close> is a predicate on that state and the handle of the connection.
\<close>

record 'u userHandler =
  initializeUserHandler :: "mailCredentials option \<Rightarrow> 'u \<Rightarrow> 'u"
  hasAdminPrivileges :: "'u \<Rightarrow> string \<Rightarrow> bool"
  logInUserFromSessionId :: "'u \<Rightarrow> string \<Rightarrow> string \<Rightarrow> string \<Rightarrow> reply outcome \<times> 'u"
  logInUserFromPassword :: "'u \<Rightarrow> string \<Rightarrow> string \<Rightarrow> string \<Rightarrow> bool \<Rightarrow> reply outcome \<times> 'u"
  signUpNewUser :: "'u \<Rightarrow> string \<Rightarrow> string \<Rightarrow> string \<Rightarrow> reply outcome \<times> 'u"

record 'u server =
  db :: db_state
  users :: 'u
  activeUsers :: int
  listening :: bool
  logged :: "log_entry list"

datatype event =
  LoginSuccess reply | AdminPrivilegeGranted | LoginUnsuccessful jsval
  | SignupSuccess | SignupUnsuccessful jsval
  | AddWordSuccess "string \<times> string \<times> string" | AddWordUnsuccessful payload
  | LatestQuizSetVersion string
  | LatestQuizSet string "string \<rightharpoonup> (string \<rightharpoonup> string)"

definition initialServer :: "'u \<Rightarrow> db_state \<Rightarrow> 'u server" where
  "initialServer u st =
     \<lparr> db = st, users = u, activeUsers = 0, listening = False, logged = [] \<rparr>"

text \<open>
  Lines 205 to 214: the server starts to listen inside the callback of
  \<^verbatim>\<open>openDBConnection\<close>, and nowhere else.
\<close>

definition startup :: "'u userHandler \<Rightarrow> connect_result \<Rightarrow> 'u server \<Rightarrow> 'u server" where
  "startup uh res srv =
     (case openDBConnection res (db srv) of
        (entries, Ready, st') \<Rightarrow>
          srv\<lparr> db := st',
               users := initializeUserHandler uh (getMVC st') (users srv),
               logged := logged srv @ entries @ [InitializationComplete, ListeningOnPort],
               listening := True \<rparr>
      | (entries, _, st') \<Rightarrow> srv\<lparr> db := st', logged := logged srv @ entries \<rparr>)"

text \<open>
  Line 108: a connection is opened. Only a listening server gets one; the result is
  \<open>None\<close> when the client cannot connect.
\<close>

definition clientConnects :: "'u server \<Rightarrow> 'u server option" where
  "clientConnects srv =
     (if listening srv then Some (srv\<lparr> activeUsers := activeUsers srv + 1 \<rparr>) else None)"

text \<open>
  Lines 110 to 132. Every exception inside the \<^verbatim>\<open>try\<close> ends in the one \<^verbatim>\<open>catch\<close>: a
  payload without properties, a mail address that does not match, a rejected login, and
  the read \<^verbatim>\<open>result["success"]\<close> when neither branch has set \<^verbatim>\<open>result\<close>.
\<close>

definition userLogin ::
  "'u userHandler \<Rightarrow> string \<Rightarrow> payload \<Rightarrow> 'u server \<Rightarrow> event list \<times> 'u server" where
  "userLogin uh socketId credentials srv =
     (case credentials of
        Nullish \<Rightarrow> ([LoginUnsuccessful (JString ''Invalid UserMail'')], srv)
      | Object props \<Rightarrow>
          (case validateUserMail (field props ''userMail'') of
             Inl _ \<Rightarrow> ([LoginUnsuccessful (JString ''Invalid UserMail'')], srv)
           | Inr userMail \<Rightarrow>
               (case (case field props ''sessionId'' of
                        JString sessionId \<Rightarrow>
                          Some (logInUserFromSessionId uh (users srv) socketId userMail sessionId)
                      | _ \<Rightarrow>
                          (case field props ''password'' of
                             JString password \<Rightarrow>
                               Some (logInUserFromPassword uh (users srv) socketId userMail
                                       password (field props ''rememberMe'' = JBool True))
                           | _ \<Rightarrow> None)) of
                  None \<Rightarrow> ([LoginUnsuccessful (JString ''Invalid UserMail'')], srv)
                | Some (Rejected, u') \<Rightarrow>
                    ([LoginUnsuccessful (JString ''Invalid UserMail'')], srv\<lparr> users := u' \<rparr>)
                | Some (Resolved result, u') \<Rightarrow>
                    (if success result
                     then (LoginSuccess result #
                             (if hasAdminPrivileges uh u' socketId
                              then [AdminPrivilegeGranted] else []),
                           srv\<lparr> users := u' \<rparr>)
                     else ([LoginUnsuccessful (reason result)], srv\<lparr> users := u' \<rparr>)))))"

text \<open>
  Lines 134 to 152. The inner \<^verbatim>\<open>catch\<close> of a rejected \<^verbatim>\<open>signUpNewUser\<close> writes the error
  to the console and emits nothing.
\<close>

definition userSignup ::
  "'u userHandler \<Rightarrow> payload \<Rightarrow> 'u server \<Rightarrow> event list \<times> 'u server" where
  "userSignup uh credentials srv =
     (case credentials of
        Nullish \<Rightarrow> ([SignupUnsuccessful (JString ''Invalid UserMail'')], srv)
      | Object props \<Rightarrow>
          (case validateUserMail (field props ''userMail'') of
             Inl _ \<Rightarrow> ([SignupUnsuccessful (JString ''Invalid UserMail'')], srv)
           | Inr userMail \<Rightarrow>
               (case (field props ''password'', field props ''websiteURL'') of
                  (JString password, JString websiteURL) \<Rightarrow>
                    (case signUpNewUser uh (users srv) websiteURL userMail password of
                       (Rejected, u') \<Rightarrow>
                         ([], srv\<lparr> users := u', logged := logged srv @ [ConsoleLogError] \<rparr>)
                     | (Resolved result, u') \<Rightarrow>
                         (if success result
                          then ([SignupSuccess], srv\<lparr> users := u' \<rparr>)
                          else ([SignupUnsuccessful (reason result)], srv\<lparr> users := u' \<rparr>)))
                | _ \<Rightarrow> ([], srv))))"

text \<open>
  Lines 165 to 175. The handler has no \<^verbatim>\<open>try\<close>: for an administrator a payload without
  properties makes the read of \<^verbatim>\<open>data["collectionName"]\<close> throw out of the handler.
\<close>

definition addNewWord ::
  "'u userHandler \<Rightarrow> string \<Rightarrow> payload \<Rightarrow> 'u server \<Rightarrow> (error + event list) \<times> 'u server" where
  "addNewWord uh socketId data srv =
     (if hasAdminPrivileges uh (users srv) socketId
      then (case data of
              Nullish \<Rightarrow> (Inl TypeError, srv)
            | Object props \<Rightarrow>
                (case (field props ''collectionName'', field props ''word'',
                       field props ''meaning'') of
                   (JString collectionName, JString word, JString meaning) \<Rightarrow>
                     (case insertNewWord (db srv) collectionName word meaning of
                        (Inr triple, st') \<Rightarrow> (Inr [AddWordSuccess triple], srv\<lparr> db := st' \<rparr>)
                      | (Inl _, st') \<Rightarrow> (Inr [AddWordUnsuccessful data], srv\<lparr> db := st' \<rparr>))
                 | _ \<Rightarrow> (Inr [], srv)))
      else (Inr [], srv))"

text \<open>Lines 188 to 197.\<close>

definition sendLatestQuizSetVersion :: "'u server \<Rightarrow> event list" where
  "sendLatestQuizSetVersion srv = [LatestQuizSetVersion (getQuizSetVersion (db srv))]"

definition sendQuizSet :: "'u server \<Rightarrow> event list" where
  "sendQuizSet srv = [LatestQuizSet (getQuizSetVersion (db srv)) (getQuizSet (db srv))]"


section \<open>Notions used in the statements\<close>

text \<open>
  The own property \<^verbatim>\<open>getQuizSet()[collectionName][word]\<close> of the snapshot, \<open>None\<close> when
  the collection has no entry or the entry does not hold the word.
\<close>

definition snapshotEntry :: "db_state \<Rightarrow> string \<Rightarrow> string \<Rightarrow> string option" where
  "snapshotEntry st collectionName word =
     (case getQuizSet st collectionName of None \<Rightarrow> None | Some entries \<Rightarrow> entries word)"

text \<open>
  What \<^verbatim>\<open>openDBConnection\<close> and \<^verbatim>\<open>insertNewWord\<close> keep between the two objects: a
  cached collection has a handle, and every handle but those of \<^verbatim>\<open>_Root\<close> and
  \<^verbatim>\<open>UserBase\<close> has a cache entry.
\<close>

definition consistent :: "db_state \<Rightarrow> bool" where
  "consistent st =
     (dom (quizSet st) \<subseteq> collectionSet st \<and>
      collectionSet st - {''_Root'', ''UserBase''} \<subseteq> dom (quizSet st))"

text \<open>
  No code unit of the class is directly followed by one that is not white space: the shape
  of a string in which the replacement has nothing left to do.
\<close>

fun spaced :: "(char \<Rightarrow> bool) \<Rightarrow> string \<Rightarrow> bool" where
  "spaced cls [] = True"
| "spaced cls [x] = True"
| "spaced cls (x # y # r) = ((\<not> cls x \<or> isWhiteSpace y) \<and> spaced cls (y # r))"

text \<open>
  The bulk insertion in the words of the specification: a fold from the left over the
  pairs, in which an insertion runs only when none before it has failed.
\<close>

definition insertWordsFold ::
  "db_state \<Rightarrow> string \<Rightarrow> (string \<times> string) list \<Rightarrow> error option \<times> db_state" where
  "insertWordsFold st collectionName pairs =
     foldl (\<lambda>acc pair.
              case fst acc of
                Some e \<Rightarrow> acc
              | None \<Rightarrow>
                  (case insertNewWord (snd acc) collectionName (fst pair) (snd pair) of
                     (Inl e, st') \<Rightarrow> (Some e, st')
                   | (Inr _, st') \<Rightarrow> (None, st')))
           (None, st) pairs"

text \<open>A document store without documents.\<close>

definition emptyStore :: "string \<Rightarrow> (string \<times> string) list" where
  "emptyStore collectionName = []"

text \<open>
  A concrete run to evaluate on: the module connected to a store without collections,
  whose coming writes have the given outcomes.
\<close>

definition connectedEmpty :: "bool list \<Rightarrow> db_state" where
  "connectedEmpty outcomes =
     snd (snd (openDBConnection (Client [] None) (initialState emptyStore outcomes)))"

text \<open>The state after the meanings have been inserted for one word, one call after the other.\<close>

fun insertMeanings :: "db_state \<Rightarrow> string \<Rightarrow> string \<Rightarrow> string list \<Rightarrow> db_state" where
  "insertMeanings st collectionName word [] = st"
| "insertMeanings st collectionName word (meaning # rest) =
     insertMeanings (snd (insertNewWord st collectionName word meaning)) collectionName word rest"

text \<open>\<^verbatim>\<open>typeof v === "string"\<close>.\<close>

fun isString :: "jsval \<Rightarrow> bool" where
  "isString (JString s) = True"
| "isString v = False"

text \<open>
  A UserHandler to evaluate on: nobody is an administrator and every login and sign-up
  rejects, as they do when the user collection cannot be reached.
\<close>

definition unavailableUsers :: "unit userHandler" where
  "unavailableUsers =
     \<lparr> initializeUserHandler = (\<lambda>_ u. u),
       hasAdminPrivileges = (\<lambda>_ _. False),
       logInUserFromSessionId = (\<lambda>u _ _ _. (Rejected, u)),
       logInUserFromPassword = (\<lambda>u _ _ _ _. (Rejected, u)),
       signUpNewUser = (\<lambda>u _ _ _. (Rejected, u)) \<rparr>"


section \<open>Normalisation of strings\<close>

lemma spaceAfter_Nil_iff [simp]: "spaceAfter cls xs = [] \<longleftrightarrow> xs = []"
  by (induction cls xs rule: spaceAfter.induct) auto

lemma hd_spaceAfter: "hd (spaceAfter cls xs) = hd xs"
  by (induction cls xs rule: spaceAfter.induct) auto

lemma last_spaceAfter: "last (spaceAfter cls xs) = last xs"
  by (induction cls xs rule: spaceAfter.induct) auto

lemma trim_Nil [simp]: "trim [] = []"
  by (simp add: trim_def)

lemma trim_id: "s \<noteq> [] \<Longrightarrow> \<not> isWhiteSpace (hd s) \<Longrightarrow> \<not> isWhiteSpace (last s) \<Longrightarrow> trim s = s"
proof -
  assume a: "s \<noteq> []" "\<not> isWhiteSpace (hd s)" "\<not> isWhiteSpace (last s)"
  then have 1: "dropWhile isWhiteSpace s = s" by (cases s) auto
  from a have "dropWhile isWhiteSpace (rev s) = rev s"
    by (cases "rev s") (auto simp: hd_rev)
  with 1 show ?thesis by (simp add: trim_def)
qed

lemma last_dropWhile_suffix: "dropWhile P xs \<noteq> [] \<Longrightarrow> last (dropWhile P xs) = last xs"
  by (induction xs) (auto split: if_splits)

lemma trim_ends:
  assumes "trim u \<noteq> []"
  shows "\<not> isWhiteSpace (hd (trim u))" and "\<not> isWhiteSpace (last (trim u))"
proof -
  let ?d = "dropWhile isWhiteSpace u"
  let ?e = "dropWhile isWhiteSpace (rev ?d)"
  have e: "?e \<noteq> []" using assms by (simp add: trim_def)
  have d: "?d \<noteq> []"
  proof
    assume "?d = []"
    then have "?e = []" by (simp only: rev.simps dropWhile.simps)
    with e show False by blast
  qed
  have "last (trim u) = hd ?e" using e by (simp add: trim_def last_rev)
  then show "\<not> isWhiteSpace (last (trim u))" using e hd_dropWhile by metis
  have "hd (trim u) = last ?e" using e by (simp add: trim_def hd_rev)
  also have "\<dots> = last (rev ?d)" using e by (rule last_dropWhile_suffix)
  also have "\<dots> = hd ?d" using d by (simp add: last_rev)
  finally show "\<not> isWhiteSpace (hd (trim u))" using d hd_dropWhile by metis
qed

lemma normalize_fixed:
  assumes "trim (spaceAfter cls s) = s"
  shows "spaceAfter cls s = s" and "trim s = s"
proof -
  have both: "spaceAfter cls s = s \<and> trim s = s"
  proof (cases "s = []")
    case True
    then show ?thesis by simp
  next
    case False
    let ?t = "spaceAfter cls s"
    have ne: "trim ?t \<noteq> []" using assms False by simp
    have "\<not> isWhiteSpace (hd (trim ?t))" "\<not> isWhiteSpace (last (trim ?t))"
      using trim_ends [OF ne] by simp_all
    then have ends: "\<not> isWhiteSpace (hd s)" "\<not> isWhiteSpace (last s)"
      using assms by simp_all
    have "trim ?t = ?t"
      using False ends by (intro trim_id) (simp_all add: hd_spaceAfter last_spaceAfter)
    with assms have "?t = s" by simp
    moreover have "trim s = s" using False ends by (rule trim_id)
    ultimately show ?thesis by simp
  qed
  then show "spaceAfter cls s = s" and "trim s = s" by simp_all
qed

lemma spaceAfter_space:
  "spaceAfter cls (xs @ CHR '' '' # ys) = spaceAfter cls xs @ spaceAfter cls (CHR '' '' # ys)"
proof (induction cls xs rule: spaceAfter.induct)
  case (2 cls x)
  then show ?case by (cases ys) (simp_all add: isWhiteSpace_def)
qed auto

lemma space_facts: "isWhiteSpace CHR '' ''" "\<not> isWhiteSpace CHR ''/''"
  by (simp_all add: isWhiteSpace_def)

lemma spaceAfter_separator:
  assumes "\<not> cls CHR '' ''"
  shows "spaceAfter cls (a @ '' / '' @ b) = spaceAfter cls a @ '' / '' @ spaceAfter cls b"
proof -
  have "spaceAfter cls (a @ '' / '' @ b) = spaceAfter cls a @ spaceAfter cls (CHR '' '' # CHR ''/'' # CHR '' '' # b)"
    using spaceAfter_space [of cls a] by simp
  also have "spaceAfter cls (CHR '' '' # CHR ''/'' # CHR '' '' # b) = '' / '' @ spaceAfter cls b"
    using assms by (cases b) (simp_all add: space_facts)
  finally show ?thesis .
qed

lemma trim_append_ends:
  assumes "a \<noteq> []" "\<not> isWhiteSpace (hd a)" "b \<noteq> []" "\<not> isWhiteSpace (last b)"
  shows "trim (a @ m @ b) = a @ m @ b"
  using assms by (intro trim_id) simp_all

lemma spaced_Cons_iff:
  "spaced cls (x # zs) \<longleftrightarrow> zs = [] \<or> ((\<not> cls x \<or> isWhiteSpace (hd zs)) \<and> spaced cls zs)"
  by (cases zs) auto

lemma spaced_spaceAfter: "\<not> cls CHR '' '' \<Longrightarrow> spaced cls (spaceAfter cls xs)"
proof (induction cls xs rule: spaceAfter.induct)
  case (3 cls x y r)
  then have ih: "spaced cls (spaceAfter cls (y # r))" by (cases "cls x \<and> \<not> isWhiteSpace y") blast+
  have hd: "hd (spaceAfter cls (y # r)) = y" by (simp add: hd_spaceAfter)
  show ?case using ih hd 3(3)
    by (simp add: spaced_Cons_iff space_facts del: spaced.simps spaceAfter.simps
             add: spaceAfter.simps(3))
qed simp_all

lemma spaced_Cons: "spaced cls (x # xs) \<Longrightarrow> spaced cls xs"
  by (cases xs) auto

lemma spaced_dropWhile: "spaced cls xs \<Longrightarrow> spaced cls (dropWhile P xs)"
  by (induction xs) (auto dest: spaced_Cons)

lemma spaced_prefix: "spaced cls (xs @ ys) \<Longrightarrow> spaced cls xs"
proof (induction cls xs rule: spaced.induct)
  case (3 cls x y r)
  then show ?case by auto
qed auto

lemma rev_dropWhile_rev_prefix: "rev (dropWhile P (rev xs)) @ rev (takeWhile P (rev xs)) = xs"
proof -
  have "rev (takeWhile P (rev xs) @ dropWhile P (rev xs)) = xs" by simp
  then show ?thesis by (simp only: rev_append)
qed

lemma spaced_trim: "spaced cls xs \<Longrightarrow> spaced cls (trim xs)"
proof -
  assume "spaced cls xs"
  then have d: "spaced cls (dropWhile isWhiteSpace xs)" by (rule spaced_dropWhile)
  have "rev (dropWhile isWhiteSpace (rev (dropWhile isWhiteSpace xs)))
        @ rev (takeWhile isWhiteSpace (rev (dropWhile isWhiteSpace xs))) = dropWhile isWhiteSpace xs"
    by (rule rev_dropWhile_rev_prefix)
  with d have "spaced cls (rev (dropWhile isWhiteSpace (rev (dropWhile isWhiteSpace xs))))"
    using spaced_prefix by metis
  then show ?thesis by (simp add: trim_def)
qed

lemma wordPunct_facts: "\<not> wordPunct CHR '' ''" "wordPunct CHR ''_''" "\<not> isWhiteSpace CHR ''_''"
  by (simp_all add: wordPunct_def isWhiteSpace_def isAlphaNumeric_def)

lemma meaningPunct_space: "\<not> meaningPunct CHR '' ''"
  by (simp add: meaningPunct_def isWhiteSpace_def)

lemma normalizeWord_not_proto: "normalizeWord w \<noteq> ''__proto__''"
proof
  assume a: "normalizeWord w = ''__proto__''"
  have "spaced wordPunct (normalizeWord w)"
    unfolding normalizeWord_def by (intro spaced_trim spaced_spaceAfter wordPunct_facts)
  with a have "spaced wordPunct ''__proto__''" by simp
  then show False by (simp add: wordPunct_facts)
qed


section \<open>Properties of insertNewWord\<close>

lemma map_of_updateOne: "map_of (updateOne w m ds) w = Some m"
  by (induction ds) auto

lemma updateOne_idem: "updateOne w m (updateOne w m ds) = updateOne w m ds"
  by (induction ds) auto

lemma mergeMeaning_error: "mergeMeaning p m = Inl e \<Longrightarrow> e = TypeError"
  by (auto simp: mergeMeaning_def split: property.splits if_splits)

lemma insertNewWord_Inr:
  assumes "fst (insertNewWord st c w m) = Inr r"
  obtains entries merged where
    "(if c \<in> collectionSet st then quizSet st c else Some Map.empty) = Some entries"
    "mergeMeaning (getProp entries w) m = Inr merged"
    "r = (c, normalizeWord w, normalizeMeaning merged)"
    "quizSet (snd (insertNewWord st c w m)) =
       (quizSet st)(c \<mapsto> setProp entries (normalizeWord w) (normalizeMeaning merged))"
    "store (snd (insertNewWord st c w m)) =
       (store st)(c := updateOne (normalizeWord w) (normalizeMeaning merged) (store st c))"
    "collectionSet (snd (insertNewWord st c w m)) = insert c (collectionSet st)"
  using assms unfolding insertNewWord_def
  by (auto simp: Let_def insert_absorb split: if_splits option.splits sum.splits list.splits)

lemma insertNewWord_StoreError:
  assumes "fst (insertNewWord st c w m) = Inl StoreError"
  shows "quizSet (snd (insertNewWord st c w m)) =
           (if c \<in> collectionSet st then quizSet st else (quizSet st)(c \<mapsto> Map.empty))"
    and "store (snd (insertNewWord st c w m)) = store st"
  using assms unfolding insertNewWord_def
  by (auto simp: Let_def split: if_splits option.splits sum.splits list.splits
           dest: mergeMeaning_error)

lemma insertNewWord_version:
  "quizSetVersion (snd (insertNewWord st c w m)) = quizSetVersion st"
  unfolding insertNewWord_def
  by (auto simp: Let_def split: if_splits option.splits sum.splits list.splits)

lemma insertNewWord_consistent:
  "consistent st \<Longrightarrow> consistent (snd (insertNewWord st c w m))"
  unfolding insertNewWord_def consistent_def
  by (auto simp: Let_def split: if_splits option.splits sum.splits list.splits)

lemma insertNewWord_Inl_known:
  assumes "fst (insertNewWord st c w m) = Inl e" and "c \<in> collectionSet st"
  shows "quizSet (snd (insertNewWord st c w m)) = quizSet st"
    and "store (snd (insertNewWord st c w m)) = store st"
  using assms unfolding insertNewWord_def
  by (auto simp: Let_def split: if_splits option.splits sum.splits list.splits)

lemma mergeMeaning_fresh:
  assumes "entries w = None" and "mergeMeaning (getProp entries w) m = Inr merged"
  shows "merged = m"
  using assms by (auto simp: mergeMeaning_def getProp_def split: if_splits)

lemma mergeMeaning_same:
  assumes "mergeMeaning (Own m) m = Inr merged"
  shows "merged = m"
  using assms by (auto simp: mergeMeaning_def split: if_splits)

lemma mergeMeaning_differs:
  assumes "e \<noteq> []" and "toLowerCase m \<noteq> toLowerCase e"
  shows "mergeMeaning (Own e) m = Inr (e @ '' / '' @ m)"
  using assms by (auto simp: mergeMeaning_def)

lemma seen_entries_fresh:
  assumes "snapshotEntry st c w = None"
    and "(if c \<in> collectionSet st then quizSet st c else Some Map.empty) = Some entries"
  shows "entries w = None"
  using assms by (auto simp: snapshotEntry_def getQuizSet_def split: if_splits)

lemma first_insertion:
  assumes "snapshotEntry st c w = None"
    and "fst (insertNewWord st c w m) = Inr r"
  shows "r = (c, normalizeWord w, normalizeMeaning m)"
    and "snapshotEntry (snd (insertNewWord st c w m)) c (normalizeWord w) = Some (normalizeMeaning m)"
    and "findOne (snd (insertNewWord st c w m)) c (normalizeWord w) = Some (normalizeMeaning m)"
    and "c \<in> collectionSet (snd (insertNewWord st c w m))"
proof -
  from assms(2) obtain entries merged where
    e: "(if c \<in> collectionSet st then quizSet st c else Some Map.empty) = Some entries"
    and m: "mergeMeaning (getProp entries w) m = Inr merged"
    and r: "r = (c, normalizeWord w, normalizeMeaning merged)"
    and q: "quizSet (snd (insertNewWord st c w m)) =
       (quizSet st)(c \<mapsto> setProp entries (normalizeWord w) (normalizeMeaning merged))"
    and s: "store (snd (insertNewWord st c w m)) =
       (store st)(c := updateOne (normalizeWord w) (normalizeMeaning merged) (store st c))"
    and cs: "collectionSet (snd (insertNewWord st c w m)) = insert c (collectionSet st)"
    by (rule insertNewWord_Inr)
  have "entries w = None" using assms(1) e by (rule seen_entries_fresh)
  then have mm: "merged = m" using m by (rule mergeMeaning_fresh)
  show "r = (c, normalizeWord w, normalizeMeaning m)" using r mm by simp
  show "snapshotEntry (snd (insertNewWord st c w m)) c (normalizeWord w) = Some (normalizeMeaning m)"
    using q mm normalizeWord_not_proto [of w]
    by (simp add: snapshotEntry_def getQuizSet_def setProp_def)
  show "findOne (snd (insertNewWord st c w m)) c (normalizeWord w) = Some (normalizeMeaning m)"
    using s mm by (simp add: findOne_def map_of_updateOne)
  show "c \<in> collectionSet (snd (insertNewWord st c w m))" using cs by simp
qed

lemma separator_normalized:
  assumes "normalizeMeaning a = a" "a \<noteq> []" "normalizeMeaning b = b" "b \<noteq> []"
  shows "normalizeMeaning (a @ '' / '' @ b) = a @ '' / '' @ b"
proof -
  have a: "spaceAfter meaningPunct a = a" "trim a = a"
    using normalize_fixed [of meaningPunct a] assms(1) by (simp_all add: normalizeMeaning_def)
  have b: "spaceAfter meaningPunct b = b" "trim b = b"
    using normalize_fixed [of meaningPunct b] assms(3) by (simp_all add: normalizeMeaning_def)
  have "trim a \<noteq> []" "trim b \<noteq> []" using a b assms by simp_all
  then have "\<not> isWhiteSpace (hd (trim a))" "\<not> isWhiteSpace (last (trim b))"
    using trim_ends by blast+
  then have ends: "\<not> isWhiteSpace (hd a)" "\<not> isWhiteSpace (last b)" using a b by simp_all
  have "spaceAfter meaningPunct (a @ '' / '' @ b) = a @ '' / '' @ b"
    using spaceAfter_separator [of meaningPunct a b] meaningPunct_space a b by simp
  moreover have "trim (a @ '' / '' @ b) = a @ '' / '' @ b"
    using assms(2) ends(1) assms(4) ends(2) by (rule trim_append_ends)
  ultimately show ?thesis by (simp add: normalizeMeaning_def)
qed

lemma merging_insertion:
  assumes w: "normalizeWord w = w"
    and known: "c \<in> collectionSet st"
    and e: "snapshotEntry st c w = Some e" "e \<noteq> []" "normalizeMeaning e = e"
    and m: "normalizeMeaning m = m" "m \<noteq> []" "toLowerCase m \<noteq> toLowerCase e"
    and ok: "fst (insertNewWord st c w m) = Inr r"
  shows "r = (c, w, e @ '' / '' @ m)"
    and "snapshotEntry (snd (insertNewWord st c w m)) c w = Some (e @ '' / '' @ m)"
    and "findOne (snd (insertNewWord st c w m)) c w = Some (e @ '' / '' @ m)"
    and "c \<in> collectionSet (snd (insertNewWord st c w m))"
proof -
  from ok obtain entries merged where
    en: "(if c \<in> collectionSet st then quizSet st c else Some Map.empty) = Some entries"
    and mg: "mergeMeaning (getProp entries w) m = Inr merged"
    and r: "r = (c, normalizeWord w, normalizeMeaning merged)"
    and q: "quizSet (snd (insertNewWord st c w m)) =
       (quizSet st)(c \<mapsto> setProp entries (normalizeWord w) (normalizeMeaning merged))"
    and s: "store (snd (insertNewWord st c w m)) =
       (store st)(c := updateOne (normalizeWord w) (normalizeMeaning merged) (store st c))"
    and cs: "collectionSet (snd (insertNewWord st c w m)) = insert c (collectionSet st)"
    by (rule insertNewWord_Inr)
  have "entries w = Some e"
    using en known e(1) by (simp add: snapshotEntry_def getQuizSet_def)
  then have "getProp entries w = Own e" by (simp add: getProp_def)
  with mg mergeMeaning_differs [OF e(2) m(3)] have mm: "merged = e @ '' / '' @ m" by simp
  have n: "normalizeMeaning merged = e @ '' / '' @ m"
    using mm separator_normalized [OF e(3) e(2) m(1) m(2)] by simp
  show "r = (c, w, e @ '' / '' @ m)" using r n w by simp
  show "snapshotEntry (snd (insertNewWord st c w m)) c w = Some (e @ '' / '' @ m)"
    using q n w normalizeWord_not_proto [of w]
    by (simp add: snapshotEntry_def getQuizSet_def setProp_def)
  show "findOne (snd (insertNewWord st c w m)) c w = Some (e @ '' / '' @ m)"
    using s n w by (simp add: findOne_def map_of_updateOne)
  show "c \<in> collectionSet (snd (insertNewWord st c w m))" using cs by simp
qed


section \<open>Properties of openDBConnection\<close>

lemma loadCollections_consistent:
  "consistent st \<Longrightarrow> consistent (snd (loadCollections names root st))"
proof (induction names root st rule: loadCollections.induct)
  case (1 root st)
  then show ?case by simp
next
  case (2 collectionName rest root st)
  show ?case
  proof (cases "collectionName = ''_Root''")
    case True
    note root_name = True
    show ?thesis
    proof (cases root)
      case None
      with root_name 2(4) show ?thesis by (auto simp: consistent_def)
    next
      case (Some doc)
      have "consistent
              (st\<lparr> collectionSet := insert collectionName (collectionSet st),
                   mailVerificationCredentials := Some (docCredentials doc),
                   quizSetVersion := versionField doc \<rparr>)"
        using 2(4) root_name by (auto simp: consistent_def)
      with 2(1) [OF refl root_name Some] root_name Some show ?thesis by simp
    qed
  next
    case False
    note not_root = False
    show ?thesis
    proof (cases "collectionName = ''UserBase''")
      case True
      have "consistent (st\<lparr> collectionSet := insert collectionName (collectionSet st) \<rparr>)"
        using 2(4) True by (auto simp: consistent_def)
      with 2(3) [OF refl not_root] True not_root show ?thesis by simp
    next
      case False
      have "consistent
              (st\<lparr> collectionSet := insert collectionName (collectionSet st),
                   quizSet := (quizSet st)(collectionName \<mapsto> loadEntries (store st collectionName)) \<rparr>)"
        using 2(4) by (auto simp: consistent_def)
      with 2(2) [OF refl not_root False] False not_root show ?thesis by simp
    qed
  qed
qed

lemma loadCollections_version:
  "''_Root'' \<notin> set names \<Longrightarrow> quizSetVersion (snd (loadCollections names root st)) = quizSetVersion st"
  by (induction names root st rule: loadCollections.induct) (auto simp: Let_def)

lemma initialState_consistent: "consistent (initialState docs outcomes)"
  by (simp add: consistent_def initialState_def)

lemma openDBConnection_consistent:
  "consistent st \<Longrightarrow> consistent (snd (snd (openDBConnection res st)))"
proof (cases res)
  case ConnectError
  assume "consistent st"
  with ConnectError show ?thesis by (simp add: openDBConnection_def)
next
  case (Client names root)
  assume "consistent st"
  then have "consistent (st\<lparr> quizzerDatabase := True \<rparr>)" by (simp add: consistent_def)
  then have "consistent (snd (loadCollections names root (st\<lparr> quizzerDatabase := True \<rparr>)))"
    by (rule loadCollections_consistent)
  with Client show ?thesis
    by (auto simp: openDBConnection_def split: prod.splits option.splits)
qed


section \<open>Properties of the gateway\<close>

lemma valid_mail: "validateUserMail (JString ''a@b.com'') = Inr ''a@b.com''"
  by code_simp


section \<open>The claims\<close>

lemma connectedEmpty_fields:
  "quizzerDatabase (connectedEmpty os)" "collectionSet (connectedEmpty os) = {}"
  "quizSet (connectedEmpty os) = Map.empty" "store (connectedEmpty os) = emptyStore"
  "upsertOutcomes (connectedEmpty os) = os" "quizSetVersion (connectedEmpty os) = ''0.0.0''"
  by (simp_all add: connectedEmpty_def openDBConnection_def initialState_def)

lemma foldl_failed:
  "foldl (\<lambda>acc pair.
              case fst acc of
                Some e \<Rightarrow> acc
              | None \<Rightarrow>
                  (case insertNewWord (snd acc) c (fst pair) (snd pair) of
                     (Inl e, st') \<Rightarrow> (Some e, st')
                   | (Inr _, st') \<Rightarrow> (None, st')))
           (Some e, st) pairs = (Some e, st)"
  by (induction pairs) simp_all

lemma mergeMeaning_resolved:
  assumes "mergeMeaning (getProp entries w) m = Inr merged"
  shows "merged =
     (case entries w of
        None \<Rightarrow> m
      | Some e \<Rightarrow> if e \<noteq> [] \<and> toLowerCase e \<noteq> toLowerCase m then e @ '' / '' @ m else m)"
  using assms by (auto simp: mergeMeaning_def getProp_def split: option.splits if_splits)

lemma insertMeanings_consistent:
  "consistent st \<Longrightarrow> consistent (insertMeanings st c w ms)"
  by (induction ms arbitrary: st) (simp_all add: insertNewWord_consistent)

lemma connectedEmpty_consistent: "consistent (connectedEmpty os)"
  by (simp add: consistent_def connectedEmpty_fields)

text \<open>
  Claim C1, as amended. For a word in normalized form, in a state the module can be in
  (\<open>consistent\<close>): when \<^verbatim>\<open>insertNewWord\<close> has completed successfully, the snapshot
  entry for the collection and the word is the normalized merge of the meaning the
  snapshot held for the word with the new one (the held meaning, the separator and the
  new meaning when the held one is not empty and differs from the new one when case is
  ignored, the new meaning alone otherwise); a read of the store for the word returns the
  same value, and the call returns the collection, the word and that value.
\<close>

theorem insertNewWord_write_through:
  assumes "normalizeWord word = word"
    and "consistent st"
    and "fst (insertNewWord st c word meaning) = Inr r"
    and "resolved =
           normalizeMeaning
             (case snapshotEntry st c word of
                None \<Rightarrow> meaning
              | Some e \<Rightarrow>
                  if e \<noteq> [] \<and> toLowerCase e \<noteq> toLowerCase meaning
                  then e @ '' / '' @ meaning else meaning)"
  shows "r = (c, word, resolved)
       \<and> snapshotEntry (snd (insertNewWord st c word meaning)) c word = Some resolved
       \<and> findOne (snd (insertNewWord st c word meaning)) c word = Some resolved"
proof -
  from assms(3) obtain entries merged where
    e: "(if c \<in> collectionSet st then quizSet st c else Some Map.empty) = Some entries"
    and m: "mergeMeaning (getProp entries word) meaning = Inr merged"
    and r: "r = (c, normalizeWord word, normalizeMeaning merged)"
    and q: "quizSet (snd (insertNewWord st c word meaning)) =
       (quizSet st)(c \<mapsto> setProp entries (normalizeWord word) (normalizeMeaning merged))"
    and s: "store (snd (insertNewWord st c word meaning)) =
       (store st)(c := updateOne (normalizeWord word) (normalizeMeaning merged) (store st c))"
    by (rule insertNewWord_Inr)
  have seen: "entries word = snapshotEntry st c word"
  proof (cases "c \<in> collectionSet st")
    case True
    with e show ?thesis by (simp add: snapshotEntry_def getQuizSet_def)
  next
    case False
    with assms(2) have "quizSet st c = None" by (auto simp: consistent_def)
    with False e show ?thesis by (auto simp: snapshotEntry_def getQuizSet_def)
  qed
  have n: "normalizeMeaning merged = resolved"
    using mergeMeaning_resolved [OF m] seen assms(4) by simp
  have "r = (c, word, resolved)" using r n assms(1) by simp
  moreover have "snapshotEntry (snd (insertNewWord st c word meaning)) c word = Some resolved"
    using q n assms(1) normalizeWord_not_proto [of word]
    by (simp add: snapshotEntry_def getQuizSet_def setProp_def)
  moreover have "findOne (snd (insertNewWord st c word meaning)) c word = Some resolved"
    using s n assms(1) by (simp add: findOne_def map_of_updateOne)
  ultimately show ?thesis by simp
qed

theorem insertNewWord_write_through_witness:
  "fst (insertNewWord (insertMeanings (connectedEmpty []) ''Animals'' ''cat'' [''Feline''])
          ''Animals'' ''cat'' ''FELINE'') = Inr (''Animals'', ''cat'', ''FELINE'')
   \<and> snapshotEntry
        (snd (insertNewWord (insertMeanings (connectedEmpty []) ''Animals'' ''cat'' [''Feline''])
                ''Animals'' ''cat'' ''FELINE''))
        ''Animals'' ''cat'' = Some ''FELINE''
   \<and> fst (insertNewWord (insertMeanings (connectedEmpty []) ''Animals'' ''cat'' [''feline''])
          ''Animals'' ''cat'' ''pet,mouser '') = Inr (''Animals'', ''cat'', ''feline / pet, mouser'')
   \<and> snapshotEntry
        (snd (insertNewWord (insertMeanings (connectedEmpty []) ''Animals'' ''cat'' [''feline''])
                ''Animals'' ''cat'' ''pet,mouser ''))
        ''Animals'' ''cat'' = Some ''feline / pet, mouser''
   \<and> findOne
        (snd (insertNewWord (insertMeanings (connectedEmpty []) ''Animals'' ''cat'' [''feline''])
                ''Animals'' ''cat'' ''pet,mouser ''))
        ''Animals'' ''cat'' = Some ''feline / pet, mouser''"
proof -
  have w: "normalizeWord ''cat'' = ''cat''"
    by code_simp
  have c1: "consistent (insertMeanings (connectedEmpty []) ''Animals'' ''cat'' [''Feline''])"
    by (intro insertMeanings_consistent connectedEmpty_consistent)
  have c2: "consistent (insertMeanings (connectedEmpty []) ''Animals'' ''cat'' [''feline''])"
    by (intro insertMeanings_consistent connectedEmpty_consistent)
  have r1: "fst (insertNewWord (insertMeanings (connectedEmpty []) ''Animals'' ''cat'' [''Feline''])
          ''Animals'' ''cat'' ''FELINE'') = Inr (''Animals'', ''cat'', ''FELINE'')"
    by code_simp
  have r2: "fst (insertNewWord (insertMeanings (connectedEmpty []) ''Animals'' ''cat'' [''feline''])
          ''Animals'' ''cat'' ''pet,mouser '') = Inr (''Animals'', ''cat'', ''feline / pet, mouser'')"
    by code_simp
  have m1: "''FELINE'' =
           normalizeMeaning
             (case snapshotEntry (insertMeanings (connectedEmpty []) ''Animals'' ''cat'' [''Feline''])
                     ''Animals'' ''cat'' of
                None \<Rightarrow> ''FELINE''
              | Some e \<Rightarrow>
                  if e \<noteq> [] \<and> toLowerCase e \<noteq> toLowerCase ''FELINE''
                  then e @ '' / '' @ ''FELINE'' else ''FELINE'')"
    by code_simp
  have m2: "''feline / pet, mouser'' =
           normalizeMeaning
             (case snapshotEntry (insertMeanings (connectedEmpty []) ''Animals'' ''cat'' [''feline''])
                     ''Animals'' ''cat'' of
                None \<Rightarrow> ''pet,mouser ''
              | Some e \<Rightarrow>
                  if e \<noteq> [] \<and> toLowerCase e \<noteq> toLowerCase ''pet,mouser ''
                  then e @ '' / '' @ ''pet,mouser '' else ''pet,mouser '')"
    by code_simp
  from insertNewWord_write_through [OF w c1 r1 m1] insertNewWord_write_through [OF w c2 r2 m2] r1 r2
  show ?thesis by simp
qed

text \<open>
  Claim C1 as stated fails for a word that normalization changes. The entry is written
  under the normalized word, so the snapshot and the store hold nothing under \<^verbatim>\<open>e.g\<close>
  after it has been inserted; and the meaning is read under the word as given, so with
  \<^verbatim>\<open>feline\<close> held for \<^verbatim>\<open>cat\<close> an insertion for \<^verbatim>\<open>cat\<close> with a space after it
  stores the new meaning alone, not the merge.
\<close>

theorem write_through_off_normal_form:
  "fst (insertNewWord (connectedEmpty []) ''Idioms'' ''e.g'' ''for example'')
     = Inr (''Idioms'', ''e. g'', ''for example'')
   \<and> snapshotEntry (snd (insertNewWord (connectedEmpty []) ''Idioms'' ''e.g'' ''for example''))
        ''Idioms'' ''e.g'' = None
   \<and> findOne (snd (insertNewWord (connectedEmpty []) ''Idioms'' ''e.g'' ''for example''))
        ''Idioms'' ''e.g'' = None
   \<and> snapshotEntry (insertMeanings (connectedEmpty []) ''Animals'' ''cat'' [''feline''])
        ''Animals'' ''cat'' = Some ''feline''
   \<and> fst (insertNewWord (insertMeanings (connectedEmpty []) ''Animals'' ''cat'' [''feline''])
          ''Animals'' ''cat '' ''pet'') = Inr (''Animals'', ''cat'', ''pet'')
   \<and> snapshotEntry
        (snd (insertNewWord (insertMeanings (connectedEmpty []) ''Animals'' ''cat'' [''feline''])
                ''Animals'' ''cat '' ''pet''))
        ''Animals'' ''cat '' = None
   \<and> snapshotEntry
        (snd (insertNewWord (insertMeanings (connectedEmpty []) ''Animals'' ''cat'' [''feline''])
                ''Animals'' ''cat '' ''pet''))
        ''Animals'' ''cat'' = Some ''pet''"
  by code_simp

text \<open>
  Claim C2, as amended. When the write of an \<^verbatim>\<open>insertNewWord\<close> call is rejected, no
  word of the snapshot has got or changed a meaning and the store is as it was; the
  cache is unchanged, or the collection had no entry and has an empty one now. The state
  is one the module can be in (\<open>consistent\<close>).
\<close>

theorem failed_write_keeps_words:
  assumes "fst (insertNewWord st c word meaning) = Inl StoreError"
    and "consistent st"
  shows "(\<forall>c' w'. snapshotEntry (snd (insertNewWord st c word meaning)) c' w' = snapshotEntry st c' w')
       \<and> (getQuizSet (snd (insertNewWord st c word meaning)) = getQuizSet st
          \<or> (c \<notin> dom (getQuizSet st)
             \<and> getQuizSet (snd (insertNewWord st c word meaning)) = (getQuizSet st)(c \<mapsto> Map.empty)))
       \<and> store (snd (insertNewWord st c word meaning)) = store st"
proof -
  let ?st' = "snd (insertNewWord st c word meaning)"
  have q: "quizSet ?st' = (if c \<in> collectionSet st then quizSet st else (quizSet st)(c \<mapsto> Map.empty))"
    and s: "store ?st' = store st"
    using insertNewWord_StoreError [OF assms(1)] by simp_all
  have fresh: "c \<notin> collectionSet st \<Longrightarrow> quizSet st c = None"
    using assms(2) by (auto simp: consistent_def)
  have 1: "\<forall>c' w'. snapshotEntry ?st' c' w' = snapshotEntry st c' w'"
    using q fresh by (auto simp: snapshotEntry_def getQuizSet_def)
  have 2: "getQuizSet ?st' = getQuizSet st
          \<or> (c \<notin> dom (getQuizSet st) \<and> getQuizSet ?st' = (getQuizSet st)(c \<mapsto> Map.empty))"
    using q fresh by (auto simp: getQuizSet_def)
  from 1 2 s show ?thesis by blast
qed

theorem failed_write_keeps_words_witness:
  "fst (insertNewWord (connectedEmpty [False]) ''Animals'' ''cat'' ''feline'') = Inl StoreError
   \<and> consistent (connectedEmpty [False])
   \<and> snapshotEntry (snd (insertNewWord (connectedEmpty [False]) ''Animals'' ''cat'' ''feline''))
        ''Animals'' ''cat'' = None
   \<and> store (snd (insertNewWord (connectedEmpty [False]) ''Animals'' ''cat'' ''feline''))
      = store (connectedEmpty [False])"
proof -
  have h1: "fst (insertNewWord (connectedEmpty [False]) ''Animals'' ''cat'' ''feline'') = Inl StoreError"
    by code_simp
  have h2: "consistent (connectedEmpty [False])"
    by (simp add: consistent_def connectedEmpty_fields)
  have "snapshotEntry (connectedEmpty [False]) ''Animals'' ''cat'' = None"
    by (simp add: snapshotEntry_def getQuizSet_def connectedEmpty_fields)
  with failed_write_keeps_words [OF h1 h2] h1 h2 show ?thesis by simp
qed

text \<open>
  Claim C2 as stated fails: a rejected first write to a collection leaves the entry that
  line 90 has made for it.
\<close>

theorem failed_write_creates_entry:
  "fst (insertNewWord (connectedEmpty [False]) ''Animals'' ''cat'' ''feline'') = Inl StoreError
   \<and> getQuizSet (connectedEmpty [False]) ''Animals'' = None
   \<and> getQuizSet (snd (insertNewWord (connectedEmpty [False]) ''Animals'' ''cat'' ''feline''))
        ''Animals'' \<noteq> None"
  by (simp add: insertNewWord_def getQuizSet_def connectedEmpty_fields objectPrototypeKeys_def
                mergeMeaning_def getProp_def Let_def)

text \<open>
  Claim C6. \<^verbatim>\<open>insertNewWord\<close> and \<^verbatim>\<open>insertWordsFromFile\<close> leave the version that
  \<^verbatim>\<open>getQuizSetVersion\<close> returns as it was, whatever their result.
\<close>

theorem insertion_keeps_version:
  "getQuizSetVersion (snd (insertNewWord st c word meaning)) = getQuizSetVersion st
   \<and> getQuizSetVersion (snd (insertWordsFromFile st c pairs)) = getQuizSetVersion st"
proof
  show "getQuizSetVersion (snd (insertNewWord st c word meaning)) = getQuizSetVersion st"
    by (simp add: getQuizSetVersion_def insertNewWord_version)
  show "getQuizSetVersion (snd (insertWordsFromFile st c pairs)) = getQuizSetVersion st"
  proof (induction pairs arbitrary: st)
    case Nil
    show ?case by simp
  next
    case (Cons pair rest)
    obtain r st' where step: "insertNewWord st c (fst pair) (snd pair) = (r, st')"
      by (cases "insertNewWord st c (fst pair) (snd pair)")
    then have v: "quizSetVersion st' = quizSetVersion st"
      using insertNewWord_version [of st c "fst pair" "snd pair"] by simp
    show ?case
    proof (cases r)
      case (Inl e)
      with step v show ?thesis by (simp add: getQuizSetVersion_def)
    next
      case (Inr t)
      with step v Cons.IH [of st'] show ?thesis by (simp add: getQuizSetVersion_def)
    qed
  qed
qed

text \<open>
  Claim C8. \<^verbatim>\<open>insertWordsFromFile\<close> is the fold from the left of \<^verbatim>\<open>insertNewWord\<close> over
  the pairs: each insertion starts in the state the one before it has left.
\<close>

theorem insertWordsFromFile_is_fold:
  "insertWordsFromFile st c pairs = insertWordsFold st c pairs"
proof (induction pairs arbitrary: st)
  case Nil
  show ?case by (simp add: insertWordsFold_def)
next
  case (Cons pair rest)
  obtain r st' where step: "insertNewWord st c (fst pair) (snd pair) = (r, st')"
    by (cases "insertNewWord st c (fst pair) (snd pair)")
  show ?case
  proof (cases r)
    case (Inl e)
    with step show ?thesis by (simp add: insertWordsFold_def foldl_failed)
  next
    case (Inr t)
    with step Cons.IH [of st'] show ?thesis by (simp add: insertWordsFold_def)
  qed
qed

text \<open>
  Claim C3, as amended. For a word in normalized form that has no meaning in the snapshot,
  and meanings in normalized form that are not empty: inserting \<open>m1\<close> and then an
  \<open>m2\<close> that differs from it when case is ignored leaves \<open>m1 / m2\<close> in the cache and
  in the store, and inserting then an \<open>m3\<close> that differs from \<open>m1 / m2\<close> when case is
  ignored leaves \<open>m1 / m2 / m3\<close>. All three calls succeed.
\<close>

theorem meanings_accumulate:
  assumes "normalizeWord w = w"
    and "normalizeMeaning m1 = m1" "m1 \<noteq> []"
    and "normalizeMeaning m2 = m2" "m2 \<noteq> []"
    and "normalizeMeaning m3 = m3" "m3 \<noteq> []"
    and "toLowerCase m2 \<noteq> toLowerCase m1"
    and "toLowerCase m3 \<noteq> toLowerCase (m1 @ '' / '' @ m2)"
    and "snapshotEntry st c w = None"
    and "st1 = snd (insertNewWord st c w m1)" "fst (insertNewWord st c w m1) = Inr r1"
    and "st2 = snd (insertNewWord st1 c w m2)" "fst (insertNewWord st1 c w m2) = Inr r2"
    and "st3 = snd (insertNewWord st2 c w m3)" "fst (insertNewWord st2 c w m3) = Inr r3"
  shows "snapshotEntry st2 c w = Some (m1 @ '' / '' @ m2)
       \<and> findOne st2 c w = Some (m1 @ '' / '' @ m2)
       \<and> snapshotEntry st3 c w = Some (m1 @ '' / '' @ m2 @ '' / '' @ m3)
       \<and> findOne st3 c w = Some (m1 @ '' / '' @ m2 @ '' / '' @ m3)"
proof -
  have one: "snapshotEntry st1 c w = Some m1" "c \<in> collectionSet st1"
    using first_insertion(2,4) [OF assms(10) assms(12)] assms(1,2,11) by simp_all
  have two: "snapshotEntry st2 c w = Some (m1 @ '' / '' @ m2)"
      "findOne st2 c w = Some (m1 @ '' / '' @ m2)" "c \<in> collectionSet st2"
    using merging_insertion(2,3,4) [OF assms(1) one(2) one(1) assms(3) assms(2) assms(4) assms(5) assms(8) assms(14)]
      assms(13) by simp_all
  have n12: "normalizeMeaning (m1 @ '' / '' @ m2) = m1 @ '' / '' @ m2"
    using assms(2,3,4,5) by (rule separator_normalized)
  have ne: "m1 @ '' / '' @ m2 \<noteq> []" by simp
  have three: "snapshotEntry st3 c w = Some ((m1 @ '' / '' @ m2) @ '' / '' @ m3)"
      "findOne st3 c w = Some ((m1 @ '' / '' @ m2) @ '' / '' @ m3)"
    using merging_insertion(2,3) [OF assms(1) two(3) two(1) ne n12 assms(6) assms(7) assms(9) assms(16)]
      assms(15) by simp_all
  from two three show ?thesis by simp
qed

theorem meanings_accumulate_witness:
  "fst (insertNewWord (connectedEmpty []) ''Animals'' ''cat'' ''feline'') = Inr
    (''Animals'', ''cat'', ''feline'')
   \<and> snapshotEntry (insertMeanings (connectedEmpty []) ''Animals'' ''cat'' [''feline'',
      ''pet'']) ''Animals'' ''cat'' = Some ''feline / pet''
   \<and> findOne (insertMeanings (connectedEmpty []) ''Animals'' ''cat'' [''feline'', ''pet''])
      ''Animals'' ''cat'' = Some ''feline / pet''
   \<and> snapshotEntry (insertMeanings (connectedEmpty []) ''Animals'' ''cat'' [''feline'',
      ''pet'', ''mouser'']) ''Animals'' ''cat'' = Some ''feline / pet / mouser''
   \<and> findOne (insertMeanings (connectedEmpty []) ''Animals'' ''cat'' [''feline'', ''pet'',
      ''mouser'']) ''Animals'' ''cat'' = Some ''feline / pet / mouser''"
proof -
  have w: "normalizeWord ''cat'' = ''cat''"
    by code_simp
  have n1: "normalizeMeaning ''feline'' = ''feline''"
    by code_simp
  have e1: "''feline'' \<noteq> []"
    by simp
  have n2: "normalizeMeaning ''pet'' = ''pet''"
    by code_simp
  have e2: "''pet'' \<noteq> []"
    by simp
  have n3: "normalizeMeaning ''mouser'' = ''mouser''"
    by code_simp
  have e3: "''mouser'' \<noteq> []"
    by simp
  have d2: "toLowerCase ''pet'' \<noteq> toLowerCase ''feline''"
    by code_simp
  have d3: "toLowerCase ''mouser'' \<noteq> toLowerCase (''feline'' @ '' / '' @ ''pet'')"
    by code_simp
  have f: "snapshotEntry (connectedEmpty []) ''Animals'' ''cat'' = None"
    by (simp add: snapshotEntry_def getQuizSet_def connectedEmpty_fields)
  have s1: "insertMeanings (connectedEmpty []) ''Animals'' ''cat'' [''feline''] = snd
      (insertNewWord (connectedEmpty []) ''Animals'' ''cat'' ''feline'')"
    by simp
  have r1: "fst (insertNewWord (connectedEmpty []) ''Animals'' ''cat'' ''feline'') = Inr
      (''Animals'', ''cat'', ''feline'')"
    by code_simp
  have s2: "insertMeanings (connectedEmpty []) ''Animals'' ''cat'' [''feline'', ''pet''] = snd
      (insertNewWord (insertMeanings (connectedEmpty []) ''Animals'' ''cat'' [''feline''])
      ''Animals'' ''cat'' ''pet'')"
    by simp
  have r2: "fst (insertNewWord (insertMeanings (connectedEmpty []) ''Animals'' ''cat''
      [''feline'']) ''Animals'' ''cat'' ''pet'') = Inr (''Animals'', ''cat'',
      ''feline / pet'')"
    by code_simp
  have s3: "insertMeanings (connectedEmpty []) ''Animals'' ''cat'' [''feline'', ''pet'',
      ''mouser''] = snd (insertNewWord (insertMeanings (connectedEmpty []) ''Animals''
      ''cat'' [''feline'', ''pet'']) ''Animals'' ''cat'' ''mouser'')"
    by simp
  have r3: "fst (insertNewWord (insertMeanings (connectedEmpty []) ''Animals'' ''cat''
      [''feline'', ''pet'']) ''Animals'' ''cat'' ''mouser'') = Inr (''Animals'', ''cat'',
      ''feline / pet / mouser'')"
    by code_simp
  from meanings_accumulate [OF w n1 e1 n2 e2 n3 e3 d2 d3 f s1 r1 s2 r2 s3 r3] r1
  show ?thesis by simp
qed

text \<open>
  Claim C3 as stated fails. The meaning is read under the word as given and written under
  the normalized word, so a second meaning for \<^verbatim>\<open>e.g\<close> replaces the first; a meaning with
  a leading space is appended with two spaces after the separator; and a third meaning
  that equals the accumulated string when case is ignored replaces it.
\<close>

theorem merge_law_fails:
  "fst (insertNewWord (insertMeanings (connectedEmpty []) ''Idioms'' ''e.g''
    [''for example'']) ''Idioms'' ''e.g'' ''such as'') = Inr (''Idioms'', ''e. g'',
    ''such as'')
   \<and> snapshotEntry (insertMeanings (connectedEmpty []) ''Idioms'' ''e.g'' [''for example'',
      ''such as'']) ''Idioms'' ''e. g'' = Some ''such as''
   \<and> findOne (insertMeanings (connectedEmpty []) ''Idioms'' ''e.g'' [''for example'',
      ''such as'']) ''Idioms'' ''e. g'' = Some ''such as''
   \<and> snapshotEntry (insertMeanings (connectedEmpty []) ''Idioms'' ''e.g'' [''for example'',
      ''such as'']) ''Idioms'' ''e.g'' = None
   \<and> snapshotEntry (insertMeanings (connectedEmpty []) ''Animals'' ''cat'' [''feline'',
      '' pet'']) ''Animals'' ''cat'' = Some ''feline /  pet''
   \<and> snapshotEntry (insertMeanings (connectedEmpty []) ''Animals'' ''cat'' [''x'', ''y''])
      ''Animals'' ''cat'' = Some ''x / y''
   \<and> fst (insertNewWord (insertMeanings (connectedEmpty []) ''Animals'' ''cat'' [''x'',
      ''y'']) ''Animals'' ''cat'' ''X / Y'') = Inr (''Animals'', ''cat'', ''X / Y'')
   \<and> snapshotEntry (insertMeanings (connectedEmpty []) ''Animals'' ''cat'' [''x'', ''y'',
      ''X / Y'']) ''Animals'' ''cat'' = Some ''X / Y''"
  by code_simp

text \<open>
  Claim C4, as amended. When the word has no meaning in the snapshot and the meaning is in
  normalized form, a second call of \<^verbatim>\<open>insertNewWord\<close> with the arguments of a first,
  successful one leaves the cache and the store as the first call left them.
\<close>

theorem reinsertion_idempotent:
  assumes "snapshotEntry st c word = None"
    and "normalizeMeaning meaning = meaning"
    and "fst (insertNewWord st c word meaning) = Inr r"
  shows "getQuizSet (snd (insertNewWord (snd (insertNewWord st c word meaning)) c word meaning))
           = getQuizSet (snd (insertNewWord st c word meaning))
       \<and> store (snd (insertNewWord (snd (insertNewWord st c word meaning)) c word meaning))
           = store (snd (insertNewWord st c word meaning))"
proof -
  let ?st1 = "snd (insertNewWord st c word meaning)"
  let ?st2 = "snd (insertNewWord ?st1 c word meaning)"
  let ?w = "normalizeWord word"
  from assms(3) obtain entries merged where
    e: "(if c \<in> collectionSet st then quizSet st c else Some Map.empty) = Some entries"
    and m: "mergeMeaning (getProp entries word) meaning = Inr merged"
    and q: "quizSet ?st1 = (quizSet st)(c \<mapsto> setProp entries ?w (normalizeMeaning merged))"
    and s: "store ?st1 = (store st)(c := updateOne ?w (normalizeMeaning merged) (store st c))"
    and cs: "collectionSet ?st1 = insert c (collectionSet st)"
    by (rule insertNewWord_Inr)
  have fresh: "entries word = None" using assms(1) e by (rule seen_entries_fresh)
  then have "merged = meaning" using m by (rule mergeMeaning_fresh)
  then have n: "normalizeMeaning merged = meaning" using assms(2) by simp
  have known: "c \<in> collectionSet ?st1" using cs by simp
  have q1: "quizSet ?st1 c = Some (entries(?w \<mapsto> meaning))"
    using q n normalizeWord_not_proto [of word] by (simp add: setProp_def)
  have s1: "store ?st1 c = updateOne ?w meaning (store st c)" using s n by simp
  show ?thesis
  proof (cases "fst (insertNewWord ?st1 c word meaning)")
    case (Inl err)
    then show ?thesis using insertNewWord_Inl_known [OF Inl known]
      by (simp add: getQuizSet_def)
  next
    case (Inr r2)
    then obtain entries2 merged2 where
      e2: "(if c \<in> collectionSet ?st1 then quizSet ?st1 c else Some Map.empty) = Some entries2"
      and m2: "mergeMeaning (getProp entries2 word) meaning = Inr merged2"
      and q2: "quizSet ?st2 = (quizSet ?st1)(c \<mapsto> setProp entries2 ?w (normalizeMeaning merged2))"
      and s2: "store ?st2 = (store ?st1)(c := updateOne ?w (normalizeMeaning merged2) (store ?st1 c))"
      by (rule insertNewWord_Inr)
    have en2: "entries2 = entries(?w \<mapsto> meaning)" using e2 known q1 by simp
    have "merged2 = meaning"
    proof (cases "word = ?w")
      case True
      then have "getProp entries2 word = Own meaning" using en2 by (simp add: getProp_def)
      with m2 show ?thesis using mergeMeaning_same by simp
    next
      case False
      then have "entries2 word = None" using en2 fresh by simp
      then show ?thesis using m2 by (rule mergeMeaning_fresh)
    qed
    then have n2: "normalizeMeaning merged2 = meaning" using assms(2) by simp
    have "setProp entries2 ?w meaning = entries2"
      using en2 by (simp add: setProp_def)
    then have "quizSet ?st2 = quizSet ?st1" using q2 n2 e2 known by (auto simp: fun_upd_idem)
    moreover have "store ?st2 = store ?st1"
    proof -
      have "updateOne ?w (normalizeMeaning merged2) (store ?st1 c) = store ?st1 c"
        using n2 s1 by (simp add: updateOne_idem)
      with s2 show ?thesis by (simp only: fun_upd_triv)
    qed
    ultimately show ?thesis by (simp add: getQuizSet_def)
  qed
qed

theorem reinsertion_idempotent_witness:
  "fst (insertNewWord (connectedEmpty []) ''Animals'' ''cat'' ''feline'') = Inr
    (''Animals'', ''cat'', ''feline'')
   \<and> getQuizSet (snd (insertNewWord (snd (insertNewWord (connectedEmpty []) ''Animals''
      ''cat'' ''feline'')) ''Animals'' ''cat'' ''feline'')) = getQuizSet (snd (insertNewWord
      (connectedEmpty []) ''Animals'' ''cat'' ''feline''))
   \<and> store (snd (insertNewWord (snd (insertNewWord (connectedEmpty []) ''Animals'' ''cat''
      ''feline'')) ''Animals'' ''cat'' ''feline'')) = store (snd (insertNewWord
      (connectedEmpty []) ''Animals'' ''cat'' ''feline''))"
proof -
  have f: "snapshotEntry (connectedEmpty []) ''Animals'' ''cat'' = None"
    by (simp add: snapshotEntry_def getQuizSet_def connectedEmpty_fields)
  have n: "normalizeMeaning ''feline'' = ''feline''"
    by code_simp
  have r: "fst (insertNewWord (connectedEmpty []) ''Animals'' ''cat'' ''feline'') = Inr
      (''Animals'', ''cat'', ''feline'')"
    by code_simp
  from reinsertion_idempotent [OF f n r] r show ?thesis by blast
qed

text \<open>
  Claim C4 as stated fails. With an earlier meaning in the cache the comparison is with
  the accumulated string, and a meaning that normalization changes is compared as given:
  in both cases the second call appends the meaning again.
\<close>

theorem reinsertion_duplicates:
  "snapshotEntry (insertMeanings (connectedEmpty []) ''Animals'' ''cat'' [''feline'',
    ''pet'']) ''Animals'' ''cat'' = Some ''feline / pet''
   \<and> snapshotEntry (insertMeanings (connectedEmpty []) ''Animals'' ''cat'' [''feline'',
      ''pet'', ''pet'']) ''Animals'' ''cat'' = Some ''feline / pet / pet''
   \<and> findOne (insertMeanings (connectedEmpty []) ''Animals'' ''cat'' [''feline'', ''pet'',
      ''pet'']) ''Animals'' ''cat'' = Some ''feline / pet / pet''
   \<and> snapshotEntry (insertMeanings (connectedEmpty []) ''Animals'' ''cat'' [''a,b''])
      ''Animals'' ''cat'' = Some ''a, b''
   \<and> snapshotEntry (insertMeanings (connectedEmpty []) ''Animals'' ''cat'' [''a,b'',
      ''a,b'']) ''Animals'' ''cat'' = Some ''a, b / a, b''
   \<and> findOne (insertMeanings (connectedEmpty []) ''Animals'' ''cat'' [''a,b'', ''a,b''])
      ''Animals'' ''cat'' = Some ''a, b / a, b''"
  by code_simp

text \<open>
  Claim C5. For a connection without admin privileges the handler of \<^verbatim>\<open>addNewWord\<close>
  emits nothing and leaves the whole state, cache and store included, as it was.
\<close>

theorem addNewWord_needs_admin:
  assumes "\<not> hasAdminPrivileges uh (users srv) socketId"
  shows "addNewWord uh socketId data srv = (Inr [], srv)"
  using assms by (simp add: addNewWord_def)

theorem addNewWord_needs_admin_witness:
  "\<not> hasAdminPrivileges unavailableUsers (users (initialServer () (connectedEmpty []))) ''socket-1''
   \<and> addNewWord unavailableUsers ''socket-1''
        (Object [(''collectionName'', JString ''Animals''), (''word'', JString ''cat''),
                 (''meaning'', JString ''feline'')])
        (initialServer () (connectedEmpty []))
      = (Inr [], initialServer () (connectedEmpty []))"
proof -
  have h: "\<not> hasAdminPrivileges unavailableUsers (users (initialServer () (connectedEmpty []))) ''socket-1''"
    by (simp add: unavailableUsers_def)
  from addNewWord_needs_admin [OF h] h show ?thesis by blast
qed

text \<open>
  Claim C7 fails on the code. A sign-up with a valid mail address and strings for the
  password and the site is answered by no event at all when \<^verbatim>\<open>signUpNewUser\<close> rejects.
\<close>

theorem signup_rejection_is_silent:
  "fst (userSignup unavailableUsers
          (Object [(''userMail'', JString ''a@b.com''), (''password'', JString ''p''),
                   (''websiteURL'', JString ''http://x'')])
          (initialServer () (connectedEmpty []))) = []"
  by (simp add: userSignup_def field_def valid_mail unavailableUsers_def)

text \<open>
  Claim C9, as amended. When the connection to the store fails at start, no exception
  leaves \<^verbatim>\<open>openDBConnection\<close>, the failure is logged, the cache stays empty and the
  version stays \<^verbatim>\<open>0.0.0\<close>; the callback is not called, so the server does not listen
  and no client can connect.
\<close>

theorem startup_without_store:
  "fst (snd (openDBConnection ConnectError (initialState docs outcomes))) = NotConnected
   \<and> logged (startup uh ConnectError (initialServer u (initialState docs outcomes)))
     = [DBConnectionError, ConnectErrorObject]
   \<and> \<not> listening (startup uh ConnectError (initialServer u (initialState docs outcomes)))
   \<and> clientConnects (startup uh ConnectError (initialServer u (initialState docs outcomes))) = None
   \<and> getQuizSet (db (startup uh ConnectError (initialServer u (initialState docs outcomes)))) = Map.empty
   \<and> getQuizSetVersion (db (startup uh ConnectError (initialServer u (initialState docs outcomes)))) = ''0.0.0''"
  by (simp add: startup_def openDBConnection_def initialServer_def initialState_def
                clientConnects_def getQuizSet_def getQuizSetVersion_def)

text \<open>Claim C9 as stated fails: after a failed connection no client can connect.\<close>

theorem no_client_without_store:
  "clientConnects (startup unavailableUsers ConnectError
                     (initialServer () (initialState emptyStore []))) = None"
  by (simp add: startup_def openDBConnection_def initialServer_def clientConnects_def)

text \<open>
  Claim C10. A \<^verbatim>\<open>userLogin\<close> whose mail address is valid and whose payload has neither a
  string \<^verbatim>\<open>sessionId\<close> nor a string \<^verbatim>\<open>password\<close> is answered by the one event
  \<^verbatim>\<open>loginUnsuccessful\<close> with the reason \<^verbatim>\<open>Invalid UserMail\<close>, and changes nothing.
\<close>

theorem login_without_credentials:
  assumes "validateUserMail (field props ''userMail'') = Inr userMail"
    and "\<not> isString (field props ''sessionId'')"
    and "\<not> isString (field props ''password'')"
  shows "userLogin uh socketId (Object props) srv
         = ([LoginUnsuccessful (JString ''Invalid UserMail'')], srv)"
proof -
  have s: "(case field props ''sessionId'' of JString x \<Rightarrow> f x | _ \<Rightarrow> g) = g" for f and g :: "'b"
    using assms(2) by (cases "field props ''sessionId''") simp_all
  have p: "(case field props ''password'' of JString x \<Rightarrow> f x | _ \<Rightarrow> g) = g" for f and g :: "'b"
    using assms(3) by (cases "field props ''password''") simp_all
  show ?thesis using assms(1) by (simp add: userLogin_def s p)
qed

theorem login_without_credentials_witness:
  "validateUserMail (field [(''userMail'', JString ''a@b.com''), (''rememberMe'', JBool True)] ''userMail'')
     = Inr ''a@b.com''
   \<and> \<not> isString (field [(''userMail'', JString ''a@b.com''), (''rememberMe'', JBool True)] ''sessionId'')
   \<and> \<not> isString (field [(''userMail'', JString ''a@b.com''), (''rememberMe'', JBool True)] ''password'')
   \<and> userLogin unavailableUsers ''socket-1''
        (Object [(''userMail'', JString ''a@b.com''), (''rememberMe'', JBool True)])
        (initialServer () (connectedEmpty []))
      = ([LoginUnsuccessful (JString ''Invalid UserMail'')], initialServer () (connectedEmpty []))"
proof -
  have h1: "validateUserMail (field [(''userMail'', JString ''a@b.com''), (''rememberMe'', JBool True)] ''userMail'')
     = Inr ''a@b.com''"
    by (simp add: field_def valid_mail)
  have h2: "\<not> isString (field [(''userMail'', JString ''a@b.com''), (''rememberMe'', JBool True)] ''sessionId'')"
    by (simp add: field_def)
  have h3: "\<not> isString (field [(''userMail'', JString ''a@b.com''), (''rememberMe'', JBool True)] ''password'')"
    by (simp add: field_def)
  from login_without_credentials [OF h1 h2 h3] h1 h2 h3 show ?thesis by blast
qed

end
